theory Spec2Isabelle
  imports Complex_Main "HOL-Library.Sublist"
begin

section \<open>Data model (src/types.ts)\<close>

text \<open>
  The enums of \<^verbatim>\<open>types.ts\<close> are datatypes, its interfaces are records. An optional
  field \<^verbatim>\<open>f?: T\<close> is a field of type \<open>T option\<close>. JavaScript numbers that count
  (nonces, retry counters, gas amounts) are natural numbers, priorities are integers and
  delays in milliseconds are reals (the idealisation of \<^verbatim>\<open>number\<close> without rounding,
  NaN or infinities). Some field names are changed because the source's names are taken:
  \<^verbatim>\<open>value\<close> is \<open>val\<close> and \<^verbatim>\<open>type\<close> is \<open>txType\<close>; the two \<^verbatim>\<open>id\<close> fields are
  \<open>config_id\<close> (of a TransactionConfig) and \<open>tx_id\<close> (of a QueuedTransaction);
  \<^verbatim>\<open>maxRetries\<close> of RetryOptions is \<open>opt_maxRetries\<close>; the fields \<^verbatim>\<open>queue\<close> and
  \<^verbatim>\<open>options\<close> of the executor are \<open>ex_queue\<close> and \<open>ex_options\<close>; the fields of the
  \<^verbatim>\<open>Partial<...>\<close> and per-call option objects carry the prefixes \<open>p_\<close> and \<open>o_\<close>.
\<close>

datatype TransactionStatus =
  PENDING | QUEUED | EXECUTING | CONFIRMING | CONFIRMED | FAILED | CANCELLED | REPLACED

datatype RetryStrategy = EXPONENTIAL_BACKOFF | LINEAR | FIXED_DELAY | NONE

record TransactionConfig =
  config_id :: "string option"
  to :: "string option"
  data :: "string option"
  val :: "nat option"
  gasLimit :: "nat option"
  gasPrice :: "nat option"
  maxFeePerGas :: "nat option"
  maxPriorityFeePerGas :: "nat option"
  nonce :: "nat option"
  chainId :: "nat option"
  txType :: "nat option"

record Error =
  message :: string

record TransactionReceipt =
  gasUsed :: nat

record QueuedTransaction =
  tx_id :: string
  config :: TransactionConfig
  status :: TransactionStatus
  priority :: int
  dependencies :: "string list"
  retryCount :: nat
  maxRetries :: nat
  createdAt :: nat
  executedAt :: "nat option"
  confirmedAt :: "nat option"
  hash :: "string option"
  receipt :: "TransactionReceipt option"
  error :: "Error option"
  metadata :: "(string \<times> string) list option"

record TransactionQueueOptions =
  maxConcurrent :: nat
  defaultMaxRetries :: nat
  retryStrategy :: RetryStrategy
  retryDelay :: real
  maxRetryDelay :: real
  confirmationBlocks :: nat
  autoStart :: bool
  nonceManager :: bool

record RetryOptions =
  strategy :: RetryStrategy
  opt_maxRetries :: nat
  baseDelay :: real
  maxDelay :: real
  backoffMultiplier :: real

text \<open>The argument of the RetryManager constructor, \<^verbatim>\<open>Partial<RetryOptions>\<close>.\<close>

record PartialRetryOptions =
  p_strategy :: "RetryStrategy option"
  p_maxRetries :: "nat option"
  p_baseDelay :: "real option"
  p_maxDelay :: "real option"
  p_backoffMultiplier :: "real option"

section \<open>JavaScript helpers\<close>

text \<open>\<^verbatim>\<open>x || d\<close> on an optional number: the default is taken when \<open>x\<close> is undefined or 0.\<close>

definition or_default :: "'a::zero option \<Rightarrow> 'a \<Rightarrow> 'a" where
  "or_default x d = (case x of None \<Rightarrow> d | Some v \<Rightarrow> if v = 0 then d else v)"

text \<open>\<^verbatim>\<open>!x\<close> on an optional number (undefined and 0 are falsy) and on an optional string
  (undefined and the empty string are falsy).\<close>

definition falsy_num :: "'a::zero option \<Rightarrow> bool" where
  "falsy_num x = (case x of None \<Rightarrow> True | Some v \<Rightarrow> v = 0)"

definition falsy_str :: "string option \<Rightarrow> bool" where
  "falsy_str x = (case x of None \<Rightarrow> True | Some s \<Rightarrow> s = [])"

text \<open>\<^verbatim>\<open>String.prototype.toLowerCase\<close> on the ASCII letters (a \<open>char\<close> is a byte).\<close>

definition lower_char :: "char \<Rightarrow> char" where
  "lower_char c =
     (let n = (of_char c :: nat) in if 65 \<le> n \<and> n \<le> 90 then char_of (n + 32) else c)"

definition toLowerCase :: "string \<Rightarrow> string" where
  "toLowerCase s = map lower_char s"

text \<open>\<^verbatim>\<open>s.includes(sub)\<close>: \<open>sub\<close> occurs in \<open>s\<close> as a contiguous block, tried at
  every start position from the left.\<close>

fun str_includes :: "string \<Rightarrow> string \<Rightarrow> bool" where
  "str_includes [] sub = (sub = [])"
| "str_includes (c # cs) sub = (prefix sub (c # cs) \<or> str_includes cs sub)"

section \<open>Retry policy (src/retry/RetryManager.ts)\<close>

definition RetryManager_new :: "PartialRetryOptions \<Rightarrow> RetryOptions" where
  "RetryManager_new options =
     \<lparr> strategy = (case p_strategy options of None \<Rightarrow> EXPONENTIAL_BACKOFF | Some s \<Rightarrow> s),
       opt_maxRetries = or_default (p_maxRetries options) 3,
       baseDelay = or_default (p_baseDelay options) 1000,
       maxDelay = or_default (p_maxDelay options) 30000,
       backoffMultiplier = or_default (p_backoffMultiplier options) 2 \<rparr>"

definition isRetryableError :: "Error \<Rightarrow> bool" where
  "isRetryableError err =
     (let errorMessage = toLowerCase (message err) in
      if str_includes errorMessage ''network'' \<or>
         str_includes errorMessage ''timeout'' \<or>
         str_includes errorMessage ''connection'' then True
      else if str_includes errorMessage ''rate limit'' \<or>
         str_includes errorMessage ''too many requests'' \<or>
         str_includes errorMessage ''429'' then True
      else if str_includes errorMessage ''nonce too low'' \<or>
         str_includes errorMessage ''already known'' then True
      else if str_includes errorMessage ''replacement transaction underpriced'' \<or>
         str_includes errorMessage ''gas price too low'' then True
      else if str_includes errorMessage ''pending'' \<or>
         str_includes errorMessage ''queued'' then True
      else if str_includes errorMessage ''user rejected'' \<or>
         str_includes errorMessage ''user denied'' \<or>
         str_includes errorMessage ''insufficient funds'' \<or>
         str_includes errorMessage ''insufficient balance'' then False
      else if str_includes errorMessage ''revert'' \<or>
         str_includes errorMessage ''execution reverted'' then False
      else False)"

definition shouldRetry :: "QueuedTransaction \<Rightarrow> Error \<Rightarrow> bool" where
  "shouldRetry transaction err =
     (if retryCount transaction \<ge> maxRetries transaction then False
      else isRetryableError err)"

text \<open>
  \<^verbatim>\<open>Math.random()\<close> is the parameter \<open>rnd\<close>, a real in \<open>[0, 1)\<close>. The attempt number
  is an integer; \<^verbatim>\<open>Math.pow(m, attemptNumber - 1)\<close> is \<open>m powi (attemptNumber - 1)\<close>.
\<close>

definition getExponentialBackoffDelay :: "RetryOptions \<Rightarrow> real \<Rightarrow> int \<Rightarrow> real" where
  "getExponentialBackoffDelay opts rnd attemptNumber =
     (let delay = baseDelay opts * (backoffMultiplier opts powi (attemptNumber - 1));
          jitter = rnd * 0.1 * delay;
          totalDelay = min (delay + jitter) (maxDelay opts)
      in of_int \<lfloor>totalDelay\<rfloor>)"

definition getLinearDelay :: "RetryOptions \<Rightarrow> int \<Rightarrow> real" where
  "getLinearDelay opts attemptNumber =
     (let delay = baseDelay opts * of_int attemptNumber in min delay (maxDelay opts))"

definition getRetryDelay :: "RetryOptions \<Rightarrow> real \<Rightarrow> int \<Rightarrow> real" where
  "getRetryDelay opts rnd attemptNumber =
     (case strategy opts of
        EXPONENTIAL_BACKOFF \<Rightarrow> getExponentialBackoffDelay opts rnd attemptNumber
      | LINEAR \<Rightarrow> getLinearDelay opts attemptNumber
      | FIXED_DELAY \<Rightarrow> baseDelay opts
      | NONE \<Rightarrow> 0)"


definition incrementRetryCount :: "QueuedTransaction \<Rightarrow> QueuedTransaction" where
  "incrementRetryCount transaction = transaction\<lparr>retryCount := retryCount transaction + 1\<rparr>"

section \<open>Scheduling queue (src/queue/TransactionQueue.ts)\<close>

text \<open>
  The two \<^verbatim>\<open>Map\<close>s of the class are partial functions. A \<^verbatim>\<open>Set<string>\<close> of the
  dependency graph is the list of its members in insertion order, without repetition.
  The methods mutate the object in place; the model returns the new queue next to the
  method's result. \<^verbatim>\<open>new Date()\<close> is the parameter \<open>now\<close>, and the identifier that
  \<^verbatim>\<open>generateId()\<close> would return is the parameter \<open>gen\<close>.
\<close>

record TransactionQueue =
  queue :: "string \<rightharpoonup> QueuedTransaction"
  executionOrder :: "string list"
  options :: TransactionQueueOptions
  dependencyGraph :: "string \<rightharpoonup> string list"

record PartialQueueOptions =
  p_maxConcurrent :: "nat option"
  p_defaultMaxRetries :: "nat option"
  p_retryStrategy :: "RetryStrategy option"
  p_retryDelay :: "real option"
  p_maxRetryDelay :: "real option"
  p_confirmationBlocks :: "nat option"
  p_autoStart :: "bool option"
  p_nonceManager :: "bool option"

definition resolveOptions :: "PartialQueueOptions \<Rightarrow> TransactionQueueOptions" where
  "resolveOptions opts =
     \<lparr> maxConcurrent = or_default (p_maxConcurrent opts) 1,
       defaultMaxRetries = or_default (p_defaultMaxRetries opts) 3,
       retryStrategy =
         (case p_retryStrategy opts of None \<Rightarrow> EXPONENTIAL_BACKOFF | Some s \<Rightarrow> s),
       retryDelay = or_default (p_retryDelay opts) 1000,
       maxRetryDelay = or_default (p_maxRetryDelay opts) 30000,
       confirmationBlocks = or_default (p_confirmationBlocks opts) 1,
       autoStart = (case p_autoStart opts of None \<Rightarrow> True | Some b \<Rightarrow> b),
       nonceManager = (case p_nonceManager opts of None \<Rightarrow> True | Some b \<Rightarrow> b) \<rparr>"

definition TransactionQueue_new :: "PartialQueueOptions \<Rightarrow> TransactionQueue" where
  "TransactionQueue_new opts =
     \<lparr> queue = Map.empty, executionOrder = [], options = resolveOptions opts,
       dependencyGraph = Map.empty \<rparr>"

text \<open>\<^verbatim>\<open>new Set(xs)\<close>: the first occurrence of each member, in order.\<close>

definition newSet :: "string list \<Rightarrow> string list" where
  "newSet xs = rev (remdups (rev xs))"

record AddOptions =
  o_priority :: "int option"
  o_dependencies :: "string list option"
  o_maxRetries :: "nat option"
  o_metadata :: "(string \<times> string) list option"

text \<open>The loop of \<^verbatim>\<open>insertIntoExecutionOrder\<close>: the index of the first entry whose
  record exists and has a smaller priority, or the length of the list.\<close>

fun insertIndex :: "(string \<rightharpoonup> QueuedTransaction) \<Rightarrow> int \<Rightarrow> string list \<Rightarrow> nat \<Rightarrow> nat" where
  "insertIndex qm p [] i = i"
| "insertIndex qm p (x # xs) i =
     (case qm x of
        None \<Rightarrow> insertIndex qm p xs (Suc i)
      | Some existingTx \<Rightarrow>
          if priority existingTx < p then i else insertIndex qm p xs (Suc i))"

text \<open>\<^verbatim>\<open>xs.splice(k, 0, x)\<close> for \<open>k \<le> length xs\<close>.\<close>

definition splice_in :: "nat \<Rightarrow> 'a \<Rightarrow> 'a list \<Rightarrow> 'a list" where
  "splice_in k x xs = take k xs @ x # drop k xs"

definition insertIntoExecutionOrder :: "TransactionQueue \<Rightarrow> string \<Rightarrow> int \<Rightarrow> TransactionQueue" where
  "insertIntoExecutionOrder q ident p =
     q\<lparr>executionOrder :=
         splice_in (insertIndex (queue q) p (executionOrder q) 0) ident (executionOrder q)\<rparr>"

definition add :: "TransactionQueue \<Rightarrow> TransactionConfig \<Rightarrow> AddOptions \<Rightarrow> nat \<Rightarrow> string
    \<Rightarrow> string \<times> TransactionQueue" where
  "add q cfg opts now gen =
     (let ident = (if falsy_str (config_id cfg) then gen else the (config_id cfg));
          deps = (case o_dependencies opts of None \<Rightarrow> [] | Some ds \<Rightarrow> ds);
          transaction =
            \<lparr> tx_id = ident, config = cfg\<lparr>config_id := Some ident\<rparr>, status = PENDING,
              priority = or_default (o_priority opts) 0,
              dependencies = deps,
              retryCount = 0,
              maxRetries = or_default (o_maxRetries opts) (defaultMaxRetries (options q)),
              createdAt = now, executedAt = None, confirmedAt = None, hash = None,
              receipt = None, error = None, metadata = o_metadata opts \<rparr>;
          q1 = q\<lparr>queue := (queue q)(ident \<mapsto> transaction)\<rparr>;
          q2 = (if deps \<noteq> [] then q1\<lparr>dependencyGraph := (dependencyGraph q1)(ident \<mapsto> newSet deps)\<rparr>
                else q1)
      in (ident, insertIntoExecutionOrder q2 ident (priority transaction)))"

fun status_name :: "TransactionStatus \<Rightarrow> string" where
  "status_name PENDING = ''PENDING''"
| "status_name QUEUED = ''QUEUED''"
| "status_name EXECUTING = ''EXECUTING''"
| "status_name CONFIRMING = ''CONFIRMING''"
| "status_name CONFIRMED = ''CONFIRMED''"
| "status_name FAILED = ''FAILED''"
| "status_name CANCELLED = ''CANCELLED''"
| "status_name REPLACED = ''REPLACED''"

text \<open>\<^verbatim>\<open>remove\<close> throws for a record that is executing or confirming: the result is
  \<open>Inl\<close> of the error and the queue is as before.\<close>

definition remove :: "TransactionQueue \<Rightarrow> string \<Rightarrow> Error + bool \<times> TransactionQueue" where
  "remove q ident =
     (case queue q ident of
        None \<Rightarrow> Inr (False, q)
      | Some transaction \<Rightarrow>
          if status transaction = EXECUTING \<or> status transaction = CONFIRMING then
            Inl \<lparr>message = ''Cannot remove transaction '' @ ident @ '' in status '' @
                   status_name (status transaction)\<rparr>
          else
            Inr (True,
              q\<lparr>queue := (queue q)(ident := None),
                executionOrder := filter (\<lambda>txId. txId \<noteq> ident) (executionOrder q),
                dependencyGraph :=
                  (\<lambda>k. map_option (removeAll ident) (((dependencyGraph q)(ident := None)) k))\<rparr>))"

definition cancel :: "TransactionQueue \<Rightarrow> string \<Rightarrow> bool \<times> TransactionQueue" where
  "cancel q ident =
     (case queue q ident of
        None \<Rightarrow> (False, q)
      | Some transaction \<Rightarrow>
          if status transaction = CONFIRMED then (False, q)
          else (True, q\<lparr>queue := (queue q)(ident \<mapsto> transaction\<lparr>status := CANCELLED\<rparr>)\<rparr>))"

definition get :: "TransactionQueue \<Rightarrow> string \<Rightarrow> QueuedTransaction option" where
  "get q ident = queue q ident"

fun pendingDependencyLoop :: "TransactionQueue \<Rightarrow> string list \<Rightarrow> bool" where
  "pendingDependencyLoop q [] = False"
| "pendingDependencyLoop q (depId # rest) =
     (case queue q depId of
        None \<Rightarrow> pendingDependencyLoop q rest
      | Some depTx \<Rightarrow>
          if status depTx \<noteq> CONFIRMED \<and> status depTx \<noteq> CANCELLED then True
          else pendingDependencyLoop q rest)"

definition hasPendingDependencies :: "TransactionQueue \<Rightarrow> string \<Rightarrow> bool" where
  "hasPendingDependencies q ident =
     (case dependencyGraph q ident of
        None \<Rightarrow> False
      | Some deps \<Rightarrow> if deps = [] then False else pendingDependencyLoop q deps)"

fun getNextLoop :: "TransactionQueue \<Rightarrow> string list \<Rightarrow> QueuedTransaction option" where
  "getNextLoop q [] = None"
| "getNextLoop q (ident # rest) =
     (case queue q ident of
        None \<Rightarrow> getNextLoop q rest
      | Some transaction \<Rightarrow>
          if status transaction \<noteq> PENDING \<and> status transaction \<noteq> QUEUED then getNextLoop q rest
          else if hasPendingDependencies q ident then getNextLoop q rest
          else Some transaction)"

definition getNext :: "TransactionQueue \<Rightarrow> QueuedTransaction option" where
  "getNext q = getNextLoop q (executionOrder q)"

definition updateStatus :: "TransactionQueue \<Rightarrow> string \<Rightarrow> TransactionStatus \<Rightarrow> nat
    \<Rightarrow> bool \<times> TransactionQueue" where
  "updateStatus q ident st now =
     (case queue q ident of
        None \<Rightarrow> (False, q)
      | Some transaction \<Rightarrow>
          (let t1 = transaction\<lparr>status := st\<rparr>;
               t2 = (if st = EXECUTING then t1\<lparr>executedAt := Some now\<rparr>
                     else if st = CONFIRMED then t1\<lparr>confirmedAt := Some now\<rparr>
                     else t1)
           in (True, q\<lparr>queue := (queue q)(ident \<mapsto> t2)\<rparr>)))"

record TransactionValidation =
  isValid :: bool
  errors :: "string list"
  warnings :: "string list"
  estimatedGas :: "nat option"
  estimatedCost :: "nat option"

definition validateTransaction :: "TransactionQueue \<Rightarrow> TransactionConfig \<Rightarrow> TransactionValidation" where
  \<open>validateTransaction q cfg =
     (let errors1 = (if falsy_str (to cfg) then [''Transaction must have a "to" address''] else []);
          warnings1 = (if falsy_str (data cfg) \<and> falsy_num (val cfg)
                       then [''Transaction has no data or value''] else []);
          errors2 = (if \<not> falsy_str (config_id cfg) \<and> queue q (the (config_id cfg)) \<noteq> None
                     then errors1 @ [''Transaction with ID '' @ the (config_id cfg) @ '' already exists'']
                     else errors1)
      in \<lparr> isValid = (length errors2 = 0), errors = errors2, warnings = warnings1,
           estimatedGas = gasLimit cfg,
           estimatedCost =
             (if \<not> falsy_num (gasLimit cfg) \<and> \<not> falsy_num (gasPrice cfg)
              then Some (the (gasLimit cfg) * the (gasPrice cfg)) else None) \<rparr>)\<close>

definition reorder :: "TransactionQueue \<Rightarrow> string \<Rightarrow> int \<Rightarrow> bool \<times> TransactionQueue" where
  "reorder q ident newPriority =
     (case queue q ident of
        None \<Rightarrow> (False, q)
      | Some transaction \<Rightarrow>
          (let q1 = q\<lparr>executionOrder := filter (\<lambda>txId. txId \<noteq> ident) (executionOrder q)\<rparr>;
               q2 = q1\<lparr>queue := (queue q1)(ident \<mapsto> transaction\<lparr>priority := newPriority\<rparr>)\<rparr>
           in (True, insertIntoExecutionOrder q2 ident newPriority)))"



section \<open>Execution engine (src/executor/TransactionExecutor.ts)\<close>

text \<open>
  The provider is a record of functions; a rejected promise is \<open>Inl\<close> of the error.
  The notifier is the list \<open>emitted\<close> of the notifications sent so far, each with the
  identifier of the record it is about. \<^verbatim>\<open>currentlyExecuting\<close> is the list of the keys of
  that map, and \<open>waited\<close> lists the durations passed to \<^verbatim>\<open>wait\<close>.

  The engine holds a reference to the record object that \<^verbatim>\<open>getNext\<close> returned. The
  model passes the record's value: the fields read through the reference (identifier,
  config, retry counter, retry ceiling) are written by no method, and an assignment
  through the reference (\<^verbatim>\<open>hash\<close>, \<^verbatim>\<open>receipt\<close>, \<^verbatim>\<open>error\<close>) becomes an update of the record
  stored under the identifier. One execution runs to its end before the next step of
  the loop, which is the order of events when the concurrency ceiling is 1.
\<close>

datatype Event =
    TransactionQueuedEv string
  | TransactionStartedEv string
  | TransactionSentEv string string
  | TransactionConfirmedEv string TransactionReceipt
  | TransactionFailedEv string Error
  | TransactionRetryEv string nat
  | TransactionCancelledEv string
  | QueueEmptyEv
  | QueuePausedEv
  | QueueResumedEv

record WalletProvider =
  sendTransaction :: "TransactionConfig \<Rightarrow> Error + string"
  getTransactionCount :: "string \<Rightarrow> Error + nat"
  estimateGas :: "TransactionConfig \<Rightarrow> Error + nat"
  getGasPrice :: "Error + nat"
  waitForTransaction :: "string \<Rightarrow> nat \<Rightarrow> Error + TransactionReceipt"

record TransactionExecutor =
  ex_queue :: TransactionQueue
  retryManager :: RetryOptions
  ex_options :: TransactionQueueOptions
  isRunning :: bool
  currentlyExecuting :: "string list"
  nonceTracker :: "string \<rightharpoonup> nat"
  emitted :: "Event list"
  waited :: "real list"

definition emit :: "Event \<Rightarrow> TransactionExecutor \<Rightarrow> TransactionExecutor" where
  "emit ev ex = ex\<lparr>emitted := emitted ex @ [ev]\<rparr>"

definition wait :: "real \<Rightarrow> TransactionExecutor \<Rightarrow> TransactionExecutor" where
  "wait ms ex = ex\<lparr>waited := waited ex @ [ms]\<rparr>"

definition setStatus :: "string \<Rightarrow> TransactionStatus \<Rightarrow> nat \<Rightarrow> TransactionExecutor
    \<Rightarrow> TransactionExecutor" where
  "setStatus ident st now ex = ex\<lparr>ex_queue := snd (updateStatus (ex_queue ex) ident st now)\<rparr>"

text \<open>An assignment to a field of the record object held by the engine.\<close>

definition assign :: "string \<Rightarrow> (QueuedTransaction \<Rightarrow> QueuedTransaction) \<Rightarrow> TransactionExecutor
    \<Rightarrow> TransactionExecutor" where
  "assign ident f ex =
     (case queue (ex_queue ex) ident of
        None \<Rightarrow> ex
      | Some t \<Rightarrow> ex\<lparr>ex_queue := (ex_queue ex)\<lparr>queue := (queue (ex_queue ex))(ident \<mapsto> f t)\<rparr>\<rparr>)"

definition start :: "TransactionExecutor \<Rightarrow> TransactionExecutor" where
  "start ex = (if isRunning ex then ex else emit QueueResumedEv (ex\<lparr>isRunning := True\<rparr>))"


definition TransactionExecutor_new :: "TransactionQueue \<Rightarrow> TransactionQueueOptions \<Rightarrow> TransactionExecutor" where
  "TransactionExecutor_new q opts =
     (let ex = \<lparr> ex_queue = q,
                 retryManager = RetryManager_new
                   \<lparr> p_strategy = Some (retryStrategy opts),
                     p_maxRetries = Some (defaultMaxRetries opts),
                     p_baseDelay = Some (retryDelay opts),
                     p_maxDelay = Some (maxRetryDelay opts),
                     p_backoffMultiplier = None \<rparr>,
                 ex_options = opts, isRunning = False, currentlyExecuting = [],
                 nonceTracker = Map.empty, emitted = [], waited = [] \<rparr>
      in if autoStart opts then start ex else ex)"

definition getAccount :: string where
  "getAccount = ''0x0000000000000000000000000000000000000000''"

text \<open>\<^verbatim>\<open>prepareTransaction\<close>, one definition for each of its three blocks. The nonce
  ledger is written before the later provider calls, so it is part of the result also
  when one of them fails.\<close>

definition prepareNonce :: "TransactionExecutor \<Rightarrow> WalletProvider \<Rightarrow> TransactionConfig
    \<Rightarrow> TransactionExecutor \<times> (Error + TransactionConfig)" where
  "prepareNonce ex provider cfg =
     (if nonceManager (ex_options ex) \<and> falsy_num (nonce cfg) then
        (case getTransactionCount provider getAccount of
           Inl e \<Rightarrow> (ex, Inl e)
         | Inr currentNonce \<Rightarrow>
             (let trackedNonce = or_default (nonceTracker ex getAccount) currentNonce;
                  n = max currentNonce trackedNonce
              in (ex\<lparr>nonceTracker := (nonceTracker ex)(getAccount \<mapsto> n + 1)\<rparr>,
                  Inr (cfg\<lparr>nonce := Some n\<rparr>))))
      else (ex, Inr cfg))"

definition prepareGasLimit :: "WalletProvider \<Rightarrow> TransactionConfig \<Rightarrow> Error + TransactionConfig" where
  "prepareGasLimit provider cfg =
     (if falsy_num (gasLimit cfg) then
        (case estimateGas provider cfg of
           Inl e \<Rightarrow> Inl e
         | Inr g \<Rightarrow> Inr (cfg\<lparr>gasLimit := Some g\<rparr>))
      else Inr cfg)"

definition prepareGasPrice :: "WalletProvider \<Rightarrow> TransactionConfig \<Rightarrow> Error + TransactionConfig" where
  "prepareGasPrice provider cfg =
     (if falsy_num (gasPrice cfg) \<and> falsy_num (maxFeePerGas cfg) then
        (case getGasPrice provider of
           Inl e \<Rightarrow> Inl e
         | Inr g \<Rightarrow> Inr (cfg\<lparr>gasPrice := Some g\<rparr>))
      else Inr cfg)"

definition prepareTransaction :: "TransactionExecutor \<Rightarrow> WalletProvider \<Rightarrow> QueuedTransaction
    \<Rightarrow> TransactionExecutor \<times> (Error + TransactionConfig)" where
  "prepareTransaction ex provider transaction =
     (case prepareNonce ex provider (config transaction) of
        (ex1, Inl e) \<Rightarrow> (ex1, Inl e)
      | (ex1, Inr cfg1) \<Rightarrow>
          (case prepareGasLimit provider cfg1 of
             Inl e \<Rightarrow> (ex1, Inl e)
           | Inr cfg2 \<Rightarrow> (ex1, prepareGasPrice provider cfg2)))"

definition handleTransactionError :: "TransactionExecutor \<Rightarrow> real \<Rightarrow> nat \<Rightarrow> QueuedTransaction
    \<Rightarrow> Error \<Rightarrow> TransactionExecutor" where
  "handleTransactionError ex rnd now transaction err =
     (if shouldRetry transaction err then
        (let updatedTx = incrementRetryCount transaction;
             ex1 = setStatus (tx_id updatedTx) PENDING now ex;
             delay = getRetryDelay (retryManager ex1) rnd (int (retryCount updatedTx));
             ex2 = emit (TransactionRetryEv (tx_id updatedTx) (retryCount updatedTx)) ex1;
             ex3 = wait delay ex2
         in if str_includes (toLowerCase (message err)) ''nonce''
            then ex3\<lparr>nonceTracker := (nonceTracker ex3)(getAccount := None)\<rparr>
            else ex3)
      else
        emit (TransactionFailedEv (tx_id transaction) err)
          (setStatus (tx_id transaction) FAILED now
            (assign (tx_id transaction) (\<lambda>t. t\<lparr>error := Some err\<rparr>) ex)))"

definition finally_delete :: "string \<Rightarrow> TransactionExecutor \<Rightarrow> TransactionExecutor" where
  "finally_delete ident ex = ex\<lparr>currentlyExecuting := removeAll ident (currentlyExecuting ex)\<rparr>"

definition executeTransaction :: "TransactionExecutor \<Rightarrow> WalletProvider \<Rightarrow> real \<Rightarrow> nat
    \<Rightarrow> QueuedTransaction \<Rightarrow> TransactionExecutor" where
  "executeTransaction ex provider rnd now transaction =
     (let ident = tx_id transaction;
          ex1 = ex\<lparr>currentlyExecuting :=
                   (if ident \<in> set (currentlyExecuting ex) then currentlyExecuting ex
                    else currentlyExecuting ex @ [ident])\<rparr>;
          ex2 = emit (TransactionStartedEv ident) (setStatus ident EXECUTING now ex1)
      in finally_delete ident
          (case prepareTransaction ex2 provider transaction of
             (ex3, Inl e) \<Rightarrow> handleTransactionError ex3 rnd now transaction e
           | (ex3, Inr preparedConfig) \<Rightarrow>
               (case sendTransaction provider preparedConfig of
                  Inl e \<Rightarrow> handleTransactionError ex3 rnd now transaction e
                | Inr h \<Rightarrow>
                    (let ex4 = emit (TransactionSentEv ident h)
                                 (assign ident (\<lambda>t. t\<lparr>hash := Some h\<rparr>) ex3);
                         ex5 = setStatus ident CONFIRMING now ex4
                     in case waitForTransaction provider h (confirmationBlocks (ex_options ex5)) of
                          Inl e \<Rightarrow> handleTransactionError ex5 rnd now transaction e
                        | Inr r \<Rightarrow>
                            emit (TransactionConfirmedEv ident r)
                              (setStatus ident CONFIRMED now
                                (assign ident (\<lambda>t. t\<lparr>receipt := Some r\<rparr>) ex5))))))"

text \<open>One pass through the body of the \<^verbatim>\<open>while (this.isRunning)\<close> loop of
  \<^verbatim>\<open>processQueue\<close>.\<close>

definition processQueueStep :: "TransactionExecutor \<Rightarrow> WalletProvider \<Rightarrow> real \<Rightarrow> nat
    \<Rightarrow> TransactionExecutor" where
  "processQueueStep ex provider rnd now =
     (if \<not> isRunning ex then ex
      else if length (currentlyExecuting ex) \<ge> maxConcurrent (ex_options ex) then wait 100 ex
      else
        (case getNext (ex_queue ex) of
           None \<Rightarrow>
             wait 100 (if currentlyExecuting ex = [] then emit QueueEmptyEv ex else ex)
         | Some transaction \<Rightarrow>
             executeTransaction
               (emit (TransactionQueuedEv (tx_id transaction))
                 (setStatus (tx_id transaction) QUEUED now ex))
               provider rnd now transaction))"

definition cancelTransaction :: "TransactionExecutor \<Rightarrow> string \<Rightarrow> bool \<times> TransactionExecutor" where
  "cancelTransaction ex ident =
     (case get (ex_queue ex) ident of
        None \<Rightarrow> (False, ex)
      | Some transaction \<Rightarrow>
          if ident \<in> set (currentlyExecuting ex) then (False, ex)
          else
            (let r = cancel (ex_queue ex) ident;
                 ex1 = ex\<lparr>ex_queue := snd r\<rparr>
             in if fst r then (True, emit (TransactionCancelledEv (tx_id transaction)) ex1)
                else (False, ex1)))"


section \<open>Reachable states\<close>



section \<open>The eligibility rule in the specification's words\<close>

text \<open>A dependency blocks when it is present in the queue with a status that is neither
  confirmed nor cancelled. The dependencies of a record are its entry in the dependency
  graph. A record is eligible when it is stored, pending or queued, and none of its
  dependencies blocks.\<close>

definition blocking :: "TransactionQueue \<Rightarrow> string \<Rightarrow> bool" where
  "blocking q depId \<longleftrightarrow>
     (\<exists>depTx. queue q depId = Some depTx \<and> status depTx \<noteq> CONFIRMED \<and> status depTx \<noteq> CANCELLED)"

definition dependencySet :: "TransactionQueue \<Rightarrow> string \<Rightarrow> string set" where
  "dependencySet q ident = (case dependencyGraph q ident of None \<Rightarrow> {} | Some deps \<Rightarrow> set deps)"

definition eligible_spec :: "TransactionQueue \<Rightarrow> string \<Rightarrow> bool" where
  "eligible_spec q ident \<longleftrightarrow>
     (\<exists>t. queue q ident = Some t \<and> (status t = PENDING \<or> status t = QUEUED)) \<and>
     (\<forall>depId \<in> dependencySet q ident. \<not> blocking q depId)"

section \<open>Concrete inputs\<close>

definition sampleConfig :: "string \<Rightarrow> TransactionConfig" where
  "sampleConfig ident =
     \<lparr> config_id = Some ident, to = Some ''0x0000000000000000000000000000000000000000'',
       data = Some ''0x'', val = None, gasLimit = None, gasPrice = None, maxFeePerGas = None,
       maxPriorityFeePerGas = None, nonce = None, chainId = None, txType = None \<rparr>"

definition withPriority :: "int \<Rightarrow> AddOptions" where
  "withPriority p =
     \<lparr> o_priority = Some p, o_dependencies = None, o_maxRetries = None, o_metadata = None \<rparr>"

definition withDependencies :: "string list \<Rightarrow> AddOptions" where
  "withDependencies ds =
     \<lparr> o_priority = None, o_dependencies = Some ds, o_maxRetries = None, o_metadata = None \<rparr>"

definition defaultOptions :: PartialQueueOptions where
  "defaultOptions =
     \<lparr> p_maxConcurrent = None, p_defaultMaxRetries = None, p_retryStrategy = None,
       p_retryDelay = None, p_maxRetryDelay = None, p_confirmationBlocks = None,
       p_autoStart = None, p_nonceManager = None \<rparr>"

text \<open>A queue with the default options (retry ceiling 3) holding the one record \<open>tx1\<close>,
  and the engine built on it.\<close>

definition queue1 :: TransactionQueue where
  "queue1 =
     snd (add (TransactionQueue_new defaultOptions) (sampleConfig ''tx1'') (withPriority 0) 0 ''gen1'')"

definition engine1 :: TransactionExecutor where
  "engine1 = TransactionExecutor_new queue1 (options queue1)"

text \<open>A provider whose preparation calls succeed and whose every send fails with the
  given message.\<close>

definition failingProvider :: "string \<Rightarrow> WalletProvider" where
  "failingProvider msg =
     \<lparr> sendTransaction = (\<lambda>cfg. Inl \<lparr>message = msg\<rparr>),
       getTransactionCount = (\<lambda>a. Inr 7),
       estimateGas = (\<lambda>cfg. Inr 21000),
       getGasPrice = Inr 1000000000,
       waitForTransaction = (\<lambda>h n. Inl \<lparr>message = msg\<rparr>) \<rparr>"

fun runSteps :: "nat \<Rightarrow> WalletProvider \<Rightarrow> TransactionExecutor \<Rightarrow> TransactionExecutor" where
  "runSteps 0 provider ex = ex"
| "runSteps (Suc n) provider ex = runSteps n provider (processQueueStep ex provider 0 0)"

text \<open>The states of the engine in which \<open>tx1\<close> is the only entry of the execution
  order, pending, with stored retry counter 0 and ceiling 3, and nothing is in flight.\<close>

definition stuck :: "TransactionExecutor \<Rightarrow> bool" where
  "stuck ex \<longleftrightarrow>
     isRunning ex \<and> currentlyExecuting ex = [] \<and> maxConcurrent (ex_options ex) = 1 \<and>
     nonceManager (ex_options ex) \<and>
     executionOrder (ex_queue ex) = [''tx1''] \<and> dependencyGraph (ex_queue ex) ''tx1'' = None \<and>
     (case queue (ex_queue ex) ''tx1'' of
        None \<Rightarrow> False
      | Some t \<Rightarrow> tx_id t = ''tx1'' \<and> status t = PENDING \<and> retryCount t = 0 \<and> maxRetries t = 3 \<and>
          config t = sampleConfig ''tx1'')"

text \<open>Record \<open>B\<close> depends on record \<open>A\<close>, both pending.\<close>

definition queueAB :: TransactionQueue where
  "queueAB =
     snd (add (snd (add (TransactionQueue_new defaultOptions) (sampleConfig ''A'') (withPriority 0) 0 ''gen1''))
            (sampleConfig ''B'') (withDependencies [''A'']) 1 ''gen2'')"

text \<open>The queue after a second \<open>add\<close> with the identifier \<open>tx1\<close> that \<open>queue1\<close> already
  holds.\<close>

definition duplicateAdd :: "string \<times> TransactionQueue" where
  "duplicateAdd = add queue1 (sampleConfig ''tx1'') (withPriority 1) 5 ''gen2''"

text \<open>\<open>A\<close> with priority 5, \<open>B\<close> with priority 3, then \<open>A\<close> again with priority 1.\<close>

definition queueABA :: TransactionQueue where
  "queueABA =
     snd (add (snd (add (snd (add (TransactionQueue_new defaultOptions)
                 (sampleConfig ''A'') (withPriority 5) 0 ''gen1''))
            (sampleConfig ''B'') (withPriority 3) 1 ''gen2''))
       (sampleConfig ''A'') (withPriority 1) 2 ''gen3'')"

definition priorityOf :: "TransactionQueue \<Rightarrow> string \<Rightarrow> int" where
  "priorityOf q ident = (case queue q ident of None \<Rightarrow> 0 | Some t \<Rightarrow> priority t)"

text \<open>The engine of \<open>engine1\<close> after one pass of the loop in which the wallet's user
  rejects the request.\<close>

definition engineRejected :: TransactionExecutor where
  "engineRejected = processQueueStep engine1 (failingProvider ''User rejected the request'') 0 0"

definition fundsError :: Error where
  "fundsError = \<lparr>message = ''insufficient funds for gas * price + value (network busy)''\<rparr>"

definition fixedManager :: RetryOptions where
  "fixedManager =
     RetryManager_new \<lparr> p_strategy = Some FIXED_DELAY, p_maxRetries = None,
       p_baseDelay = Some 5000, p_maxDelay = Some 1000, p_backoffMultiplier = None \<rparr>"

text \<open>The engine of \<open>engine1\<close> with the record \<open>tx1\<close> confirmed.\<close>

definition engineConfirmed :: TransactionExecutor where
  "engineConfirmed = setStatus ''tx1'' CONFIRMED 3 engine1"

text \<open>The execution order is by priority when the priorities of its records never
  increase along it. It is well formed when no identifier occurs twice and every entry
  has a record.\<close>

definition byPriority :: "TransactionQueue \<Rightarrow> bool" where
  "byPriority q \<longleftrightarrow> sorted_wrt (\<lambda>a b. priorityOf q a \<ge> priorityOf q b) (executionOrder q)"

definition wellFormed :: "TransactionQueue \<Rightarrow> bool" where
  "wellFormed q \<longleftrightarrow> distinct (executionOrder q) \<and> (\<forall>x \<in> set (executionOrder q). queue q x \<noteq> None)"

text \<open>A call of \<open>add\<close> or of \<open>reorder\<close>, and the identifier that \<open>add\<close> will use.\<close>

datatype QueueOp =
    Add TransactionConfig AddOptions nat string
  | Reorder string int

definition addIdent :: "TransactionConfig \<Rightarrow> string \<Rightarrow> string" where
  "addIdent cfg gen = (if falsy_str (config_id cfg) then gen else the (config_id cfg))"

fun applyOp :: "TransactionQueue \<Rightarrow> QueueOp \<Rightarrow> TransactionQueue" where
  "applyOp q (Add cfg opts now gen) = snd (add q cfg opts now gen)"
| "applyOp q (Reorder ident newPriority) = snd (reorder q ident newPriority)"

text \<open>Every \<open>add\<close> of the sequence uses an identifier that is not in the queue at the
  time of the call.\<close>

fun freshOps :: "TransactionQueue \<Rightarrow> QueueOp list \<Rightarrow> bool" where
  "freshOps q [] = True"
| "freshOps q (Add cfg opts now gen # ops) =
     (queue q (addIdent cfg gen) = None \<and> freshOps (applyOp q (Add cfg opts now gen)) ops)"
| "freshOps q (Reorder ident newPriority # ops) = freshOps (applyOp q (Reorder ident newPriority)) ops"

section \<open>Evaluation\<close>

lemmas ev =
  sampleConfig_def withPriority_def withDependencies_def defaultOptions_def queue1_def
  queueAB_def failingProvider_def engine1_def
  add_def TransactionQueue_new_def resolveOptions_def or_default_def falsy_str_def falsy_num_def
  newSet_def insertIntoExecutionOrder_def splice_in_def TransactionExecutor_new_def
  RetryManager_new_def start_def emit_def wait_def setStatus_def assign_def updateStatus_def
  getNext_def hasPendingDependencies_def getAccount_def Let_def

section \<open>The next eligible record\<close>

lemma pendingDependencyLoop_iff:
  "pendingDependencyLoop q deps \<longleftrightarrow> (\<exists>depId \<in> set deps. blocking q depId)"
  by (induction deps) (auto simp: blocking_def split: option.splits)

lemma hasPendingDependencies_iff:
  "hasPendingDependencies q ident \<longleftrightarrow> (\<exists>depId \<in> dependencySet q ident. blocking q depId)"
  by (auto simp: hasPendingDependencies_def dependencySet_def pendingDependencyLoop_iff
      split: option.splits)

lemma getNextLoop_find:
  "getNextLoop q ids = (case find (eligible_spec q) ids of None \<Rightarrow> None | Some i \<Rightarrow> queue q i)"
  by (induction ids)
     (auto simp: eligible_spec_def hasPendingDependencies_iff split: option.splits)

text \<open>
  Claim C3. \<open>getNext\<close> returns the record at the first position of the execution order
  whose identifier is eligible: stored with status pending or queued, and with no
  dependency (an entry of its dependency-graph set) that is present in the queue with a
  status other than confirmed or cancelled. A dependency identifier that is not in the
  queue does not block. It returns nothing exactly when no identifier of the execution
  order is eligible. So the record returned never has a dependency present in the queue
  whose status is neither confirmed nor cancelled.
\<close>

theorem getNext_first_eligible:
  "(getNext q = Some t \<longleftrightarrow>
      (\<exists>i < length (executionOrder q).
          queue q (executionOrder q ! i) = Some t \<and> eligible_spec q (executionOrder q ! i) \<and>
          (\<forall>j < i. \<not> eligible_spec q (executionOrder q ! j)))) \<and>
   (getNext q = None \<longleftrightarrow> (\<forall>ident \<in> set (executionOrder q). \<not> eligible_spec q ident))"
proof -
  have some: "getNext q = Some t \<longleftrightarrow>
      (\<exists>i < length (executionOrder q).
          queue q (executionOrder q ! i) = Some t \<and> eligible_spec q (executionOrder q ! i) \<and>
          (\<forall>j < i. \<not> eligible_spec q (executionOrder q ! j)))" (is "?L \<longleftrightarrow> ?R")
  proof
    assume ?L
    then obtain k where k: "find (eligible_spec q) (executionOrder q) = Some k" "queue q k = Some t"
      by (auto simp: getNext_def getNextLoop_find split: option.splits)
    from k(1) obtain i where "i < length (executionOrder q)" "eligible_spec q (executionOrder q ! i)"
        "k = executionOrder q ! i" "\<forall>j<i. \<not> eligible_spec q (executionOrder q ! j)"
      unfolding find_Some_iff by blast
    with k(2) show ?R by blast
  next
    assume ?R
    then obtain i where i: "i < length (executionOrder q)" "queue q (executionOrder q ! i) = Some t"
        "eligible_spec q (executionOrder q ! i)" "\<forall>j<i. \<not> eligible_spec q (executionOrder q ! j)"
      by blast
    then have "find (eligible_spec q) (executionOrder q) = Some (executionOrder q ! i)"
      unfolding find_Some_iff by blast
    with i(2) show ?L by (simp add: getNext_def getNextLoop_find)
  qed
  have none: "getNext q = None \<longleftrightarrow> (\<forall>ident \<in> set (executionOrder q). \<not> eligible_spec q ident)"
  proof (cases "find (eligible_spec q) (executionOrder q)")
    case None
    then have "getNext q = None"
      by (simp add: getNext_def getNextLoop_find)
    moreover from None have "\<forall>ident \<in> set (executionOrder q). \<not> eligible_spec q ident"
      by (simp add: find_None_iff)
    ultimately show ?thesis by simp
  next
    case (Some k)
    then have "k \<in> set (executionOrder q)" "eligible_spec q k"
      by (auto simp: find_Some_iff)
    moreover from this have "queue q k \<noteq> None"
      by (auto simp: eligible_spec_def)
    ultimately show ?thesis
      using Some by (auto simp: getNext_def getNextLoop_find)
  qed
  from some none show ?thesis by blast
qed

theorem getNext_first_eligible_witness:
  "getNext queueAB = queue queueAB ''A'' \<and> queue queueAB ''A'' \<noteq> None \<and>
   (\<exists>i < length (executionOrder queueAB).
       queue queueAB (executionOrder queueAB ! i) = queue queueAB ''A'' \<and>
       eligible_spec queueAB (executionOrder queueAB ! i) \<and>
       (\<forall>j < i. \<not> eligible_spec queueAB (executionOrder queueAB ! j)))"
proof -
  have g: "getNext queueAB = queue queueAB ''A''" and s: "queue queueAB ''A'' \<noteq> None"
    by (simp_all add: ev)
  from s obtain t where t: "queue queueAB ''A'' = Some t" by blast
  from g t getNext_first_eligible[of queueAB t] show ?thesis by simp
qed

section \<open>Removal\<close>

text \<open>
  Claim C9. For a stored record that is neither executing nor confirming, \<open>remove\<close>
  succeeds; afterwards the record, its entries in the execution order and its own entry in
  the dependency graph are gone, the identifier is deleted from the dependency set of
  every other record, and nothing else changes: the other records, the order of the
  other entries and the options are as before. So whether another record has pending
  dependencies is decided afterwards by its other dependencies alone, whatever the
  status of the removed record was.
\<close>

theorem remove_effect:
  assumes "queue q ident = Some t" "status t \<noteq> EXECUTING" "status t \<noteq> CONFIRMING"
  shows "\<exists>q'. remove q ident = Inr (True, q') \<and>
           queue q' ident = None \<and>
           ident \<notin> set (executionOrder q') \<and>
           executionOrder q' = filter (\<lambda>txId. txId \<noteq> ident) (executionOrder q) \<and>
           dependencyGraph q' ident = None \<and>
           options q' = options q \<and>
           (\<forall>other. other \<noteq> ident \<longrightarrow>
              queue q' other = queue q other \<and>
              dependencyGraph q' other = map_option (filter (\<lambda>d. d \<noteq> ident)) (dependencyGraph q other) \<and>
              dependencySet q' other = dependencySet q other - {ident} \<and>
              (hasPendingDependencies q' other \<longleftrightarrow>
                 (\<exists>depId \<in> dependencySet q other. depId \<noteq> ident \<and> blocking q depId)))"
proof -
  define q' where "q' = q\<lparr>queue := (queue q)(ident := None),
                executionOrder := filter (\<lambda>txId. txId \<noteq> ident) (executionOrder q),
                dependencyGraph :=
                  (\<lambda>k. map_option (removeAll ident) (((dependencyGraph q)(ident := None)) k))\<rparr>"
  have r: "remove q ident = Inr (True, q')"
    using assms by (simp add: remove_def q'_def)
  have ra: "removeAll ident = filter (\<lambda>d. d \<noteq> ident)"
  proof
    fix xs :: "string list"
    show "removeAll ident xs = filter (\<lambda>d. d \<noteq> ident) xs"
      by (induction xs) auto
  qed
  have ds: "dependencySet q' other = dependencySet q other - {ident}" if "other \<noteq> ident" for other
    using that by (auto simp: dependencySet_def q'_def split: option.splits)
  have bl: "blocking q' d \<longleftrightarrow> blocking q d" if "d \<noteq> ident" for d
    using that by (simp add: blocking_def q'_def)
  have hp: "hasPendingDependencies q' other \<longleftrightarrow>
      (\<exists>depId \<in> dependencySet q other. depId \<noteq> ident \<and> blocking q depId)" if "other \<noteq> ident" for other
    unfolding hasPendingDependencies_iff ds[OF that] using bl by auto
  have "queue q' ident = None" "ident \<notin> set (executionOrder q')"
    "executionOrder q' = filter (\<lambda>txId. txId \<noteq> ident) (executionOrder q)"
    "dependencyGraph q' ident = None" "options q' = options q"
    by (simp_all add: q'_def)
  moreover have "\<forall>other. other \<noteq> ident \<longrightarrow> queue q' other = queue q other \<and>
      dependencyGraph q' other = map_option (filter (\<lambda>d. d \<noteq> ident)) (dependencyGraph q other)"
    by (simp add: q'_def ra)
  ultimately show ?thesis using r ds hp by blast
qed

text \<open>In \<open>queueAB\<close> the record \<open>B\<close> waits for the pending record \<open>A\<close>; once \<open>A\<close> is
  removed, \<open>B\<close> has no pending dependency.\<close>

theorem remove_effect_witness:
  "hasPendingDependencies queueAB ''B'' \<and>
   (\<exists>q'. remove queueAB ''A'' = Inr (True, q') \<and> queue q' ''A'' = None \<and>
      ''A'' \<notin> set (executionOrder q') \<and> dependencyGraph q' ''B'' = Some [] \<and>
      queue q' ''B'' = queue queueAB ''B'' \<and> \<not> hasPendingDependencies q' ''B'')"
proof -
  have s: "queue queueAB ''A'' \<noteq> None" by (simp add: ev)
  then obtain t where t: "queue queueAB ''A'' = Some t" by blast
  have st: "status t = PENDING" using t by (auto simp: ev)
  have g: "dependencyGraph queueAB ''B'' = Some [''A'']" by (simp add: ev)
  have h: "hasPendingDependencies queueAB ''B''"
    using t st by (simp add: hasPendingDependencies_def g)
  have d: "dependencySet queueAB ''B'' = {''A''}" by (simp add: dependencySet_def g)
  from remove_effect[OF t] st obtain q' where q':
    "remove queueAB ''A'' = Inr (True, q')" "queue q' ''A'' = None"
    "''A'' \<notin> set (executionOrder q')"
    "\<forall>other. other \<noteq> ''A'' \<longrightarrow>
              queue q' other = queue queueAB other \<and>
              dependencyGraph q' other = map_option (filter (\<lambda>d. d \<noteq> ''A'')) (dependencyGraph queueAB other) \<and>
              dependencySet q' other = dependencySet queueAB other - {''A''} \<and>
              (hasPendingDependencies q' other \<longleftrightarrow>
                 (\<exists>depId \<in> dependencySet queueAB other. depId \<noteq> ''A'' \<and> blocking queueAB depId))"
    by auto
  from q'(4) have "queue q' ''B'' = queue queueAB ''B''" "dependencyGraph q' ''B'' = Some []"
    "\<not> hasPendingDependencies q' ''B''"
    by (simp_all add: g d)
  with h q'(1,2,3) show ?thesis by blast
qed

section \<open>Preparation\<close>

lemma prepareNonce_zero:
  assumes "nonceManager (ex_options ex)" "nonce cfg = Some 0"
    "getTransactionCount provider getAccount = Inr currentNonce"
  shows "prepareNonce ex provider cfg =
     (let n = (case nonceTracker ex getAccount of None \<Rightarrow> currentNonce
               | Some tracked \<Rightarrow> max currentNonce tracked)
      in (ex\<lparr>nonceTracker := (nonceTracker ex)(getAccount \<mapsto> n + 1)\<rparr>, Inr (cfg\<lparr>nonce := Some n\<rparr>)))"
proof (cases "nonceTracker ex getAccount")
  case None
  with assms show ?thesis
    by (simp add: prepareNonce_def falsy_num_def or_default_def)
next
  case (Some tracked)
  with assms show ?thesis
    by (simp add: prepareNonce_def falsy_num_def or_default_def max_def)
qed

lemma prepareGasLimit_cases:
  "(\<exists>c'. prepareGasLimit provider c = Inr c' \<and> nonce c' = nonce c) \<or>
   (\<exists>e. prepareGasLimit provider c = Inl e \<and> estimateGas provider c = Inl e)"
  by (cases "estimateGas provider c") (simp_all add: prepareGasLimit_def)

lemma prepareGasPrice_cases:
  "(\<exists>c'. prepareGasPrice provider c = Inr c' \<and> nonce c' = nonce c) \<or>
   (\<exists>e. prepareGasPrice provider c = Inl e \<and> getGasPrice provider = Inl e)"
  by (cases "getGasPrice provider") (simp_all add: prepareGasPrice_def)

text \<open>
  Claim C10. With automatic nonce management on, an intent whose nonce field is 0 is
  prepared as if it had no nonce: when the provider reports the pending transaction count
  \<open>currentNonce\<close>, the nonce becomes the larger of \<open>currentNonce\<close> and the ledger's tracked
  nonce for the account (\<open>currentNonce\<close> itself when the ledger has no entry), and the
  ledger is advanced to that nonce plus one. The prepared config carries the new nonce
  unless gas estimation or the gas-price query fails, and the ledger is advanced in
  either case.
\<close>

theorem prepareTransaction_nonce_zero:
  assumes "nonceManager (ex_options ex)" "nonce (config transaction) = Some 0"
    "getTransactionCount provider getAccount = Inr currentNonce"
  shows "(let n = (case nonceTracker ex getAccount of None \<Rightarrow> currentNonce
                   | Some tracked \<Rightarrow> max currentNonce tracked);
              r = prepareTransaction ex provider transaction
          in fst r = ex\<lparr>nonceTracker := (nonceTracker ex)(getAccount \<mapsto> n + 1)\<rparr> \<and>
             (case snd r of
                Inr preparedConfig \<Rightarrow> nonce preparedConfig = Some n
              | Inl e \<Rightarrow> (\<exists>c. estimateGas provider c = Inl e) \<or> getGasPrice provider = Inl e))"
proof -
  define n where "n = (case nonceTracker ex getAccount of None \<Rightarrow> currentNonce
                   | Some tracked \<Rightarrow> max currentNonce tracked)"
  define cfg1 where "cfg1 = (config transaction)\<lparr>nonce := Some n\<rparr>"
  define ex1 where "ex1 = ex\<lparr>nonceTracker := (nonceTracker ex)(getAccount \<mapsto> n + 1)\<rparr>"
  have pn: "prepareNonce ex provider (config transaction) = (ex1, Inr cfg1)"
    using prepareNonce_zero[OF assms] by (simp add: n_def cfg1_def ex1_def Let_def)
  have n1: "nonce cfg1 = Some n" by (simp add: cfg1_def)
  consider (ok) cfg2 where "prepareGasLimit provider cfg1 = Inr cfg2" "nonce cfg2 = Some n"
    | (err) e where "prepareGasLimit provider cfg1 = Inl e" "estimateGas provider cfg1 = Inl e"
    using prepareGasLimit_cases[of provider cfg1] n1 by auto
  then have "fst (prepareTransaction ex provider transaction) = ex1 \<and>
             (case snd (prepareTransaction ex provider transaction) of
                Inr preparedConfig \<Rightarrow> nonce preparedConfig = Some n
              | Inl e \<Rightarrow> (\<exists>c. estimateGas provider c = Inl e) \<or> getGasPrice provider = Inl e)"
  proof cases
    case ok
    from prepareGasPrice_cases[of provider cfg2] ok(2) show ?thesis
      by (auto simp: prepareTransaction_def pn ok(1))
  next
    case err
    then show ?thesis
      by (auto simp: prepareTransaction_def pn)
  qed
  then show ?thesis
    unfolding Let_def n_def ex1_def by simp
qed

text \<open>The ledger tracks nonce 9 and the provider reports 7: a caller-supplied nonce 0
  is replaced by 9 and the ledger moves to 10.\<close>

theorem prepareTransaction_nonce_zero_witness:
  "nonceManager (ex_options (engine1\<lparr>nonceTracker := [getAccount \<mapsto> 9]\<rparr>)) \<and>
   getTransactionCount (failingProvider ''x'') getAccount = Inr 7 \<and>
   nonceTracker (fst (prepareTransaction (engine1\<lparr>nonceTracker := [getAccount \<mapsto> 9]\<rparr>)
       (failingProvider ''x'')
       \<lparr> tx_id = ''z'', config = (sampleConfig ''z'')\<lparr>nonce := Some 0\<rparr>, status = PENDING,
         priority = 0, dependencies = [], retryCount = 0, maxRetries = 3, createdAt = 0,
         executedAt = None, confirmedAt = None, hash = None, receipt = None, error = None,
         metadata = None \<rparr>)) getAccount = Some 10 \<and>
   map_sum (\<lambda>e. e) nonce (snd (prepareTransaction (engine1\<lparr>nonceTracker := [getAccount \<mapsto> 9]\<rparr>)
       (failingProvider ''x'')
       \<lparr> tx_id = ''z'', config = (sampleConfig ''z'')\<lparr>nonce := Some 0\<rparr>, status = PENDING,
         priority = 0, dependencies = [], retryCount = 0, maxRetries = 3, createdAt = 0,
         executedAt = None, confirmedAt = None, hash = None, receipt = None, error = None,
         metadata = None \<rparr>)) = Inr (Some 9)"
proof -
  let ?ex = "engine1\<lparr>nonceTracker := [getAccount \<mapsto> 9]\<rparr>"
  let ?t = "\<lparr> tx_id = ''z'', config = (sampleConfig ''z'')\<lparr>nonce := Some 0\<rparr>, status = PENDING,
         priority = 0, dependencies = [], retryCount = 0, maxRetries = 3, createdAt = 0,
         executedAt = None, confirmedAt = None, hash = None, receipt = None, error = None,
         metadata = None \<rparr>"
  have a: "nonceManager (ex_options ?ex)"
    by (simp add: engine1_def TransactionExecutor_new_def start_def emit_def queue1_def add_def
        insertIntoExecutionOrder_def TransactionQueue_new_def resolveOptions_def
        defaultOptions_def Let_def)
  have b: "nonce (config ?t) = Some 0" by simp
  have c: "getTransactionCount (failingProvider ''x'') getAccount = Inr 7"
    by (simp add: failingProvider_def)
  have d: "estimateGas (failingProvider ''x'') cf \<noteq> Inl e" "getGasPrice (failingProvider ''x'') \<noteq> Inl e" for cf e
    by (simp_all add: failingProvider_def)
  from prepareTransaction_nonce_zero[OF a b c] d a c show ?thesis
    by (auto simp: Let_def split: sum.splits)
qed

section \<open>Retry accounting in the failure handler\<close>

lemma stuck_engine1: "stuck engine1"
  by (simp add: stuck_def ev)

lemma retryable_network: "isRetryableError \<lparr>message = ''network error''\<rparr>"
  by (simp add: isRetryableError_def toLowerCase_def lower_char_def)

lemma nonce_network: "\<not> str_includes (toLowerCase ''network error'') ''nonce''"
  by (simp add: toLowerCase_def lower_char_def)

text \<open>One pass of the loop on a \<open>stuck\<close> engine whose provider fails every send with a
  network error: the record is queued, started and retried with attempt number 1, and
  the engine is \<open>stuck\<close> again, the stored retry counter still 0.\<close>

lemma stuck_step:
  assumes "stuck ex"
  shows "stuck (processQueueStep ex (failingProvider ''network error'') 0 0) \<and>
         emitted (processQueueStep ex (failingProvider ''network error'') 0 0) =
           emitted ex @
           [TransactionQueuedEv ''tx1'', TransactionStartedEv ''tx1'', TransactionRetryEv ''tx1'' 1]"
proof -
  from assms obtain t where t: "queue (ex_queue ex) ''tx1'' = Some t" "tx_id t = ''tx1''"
      "status t = PENDING" "retryCount t = 0" "maxRetries t = 3" "config t = sampleConfig ''tx1''"
    by (auto simp: stuck_def split: option.splits)
  from assms have e: "isRunning ex" "currentlyExecuting ex = []" "maxConcurrent (ex_options ex) = 1"
      "nonceManager (ex_options ex)"
      "executionOrder (ex_queue ex) = [''tx1'']" "dependencyGraph (ex_queue ex) ''tx1'' = None"
    by (auto simp: stuck_def)
  have g: "getNext (ex_queue ex) = Some t"
    by (simp add: getNext_def e t hasPendingDependencies_def)
  show ?thesis
    by (simp add: processQueueStep_def e g t executeTransaction_def setStatus_def updateStatus_def
        emit_def prepareTransaction_def prepareNonce_def prepareGasLimit_def prepareGasPrice_def
        failingProvider_def sampleConfig_def falsy_num_def handleTransactionError_def
        shouldRetry_def retryable_network nonce_network incrementRetryCount_def wait_def
        finally_delete_def stuck_def Let_def)
qed

lemma stuck_run:
  "stuck ex \<Longrightarrow>
     stuck (runSteps n (failingProvider ''network error'') ex) \<and>
     emitted (runSteps n (failingProvider ''network error'') ex) =
       emitted ex @
       concat (replicate n
         [TransactionQueuedEv ''tx1'', TransactionStartedEv ''tx1'', TransactionRetryEv ''tx1'' 1])"
proof (induction n arbitrary: ex)
  case 0
  then show ?case by simp
next
  case (Suc n)
  from stuck_step[OF Suc.prems]
    Suc.IH[of "processQueueStep ex (failingProvider ''network error'') 0 0"]
  show ?case by simp
qed

text \<open>The failure handler never writes a retry counter: whatever it does, every stored
  counter is as before.\<close>

lemma handleTransactionError_retryCount:
  "map_option retryCount (queue (ex_queue (handleTransactionError ex rnd now transaction err)) i) =
   map_option retryCount (queue (ex_queue ex) i)"
  by (simp add: handleTransactionError_def setStatus_def updateStatus_def assign_def emit_def
      wait_def Let_def split: option.splits)

text \<open>
  Claim C1, evaluated on the code. The record \<open>tx1\<close> has retry ceiling 3 and every send
  fails with the retryable error ``network error''. After four passes of the loop the
  engine has emitted four retry notifications, each with attempt number 1, and no failed
  notification; the record is pending and its stored retry counter is 0.
\<close>

theorem retry_counter_never_stored:
  "emitted (runSteps 4 (failingProvider ''network error'') engine1) =
     [QueueResumedEv,
      TransactionQueuedEv ''tx1'', TransactionStartedEv ''tx1'', TransactionRetryEv ''tx1'' 1,
      TransactionQueuedEv ''tx1'', TransactionStartedEv ''tx1'', TransactionRetryEv ''tx1'' 1,
      TransactionQueuedEv ''tx1'', TransactionStartedEv ''tx1'', TransactionRetryEv ''tx1'' 1,
      TransactionQueuedEv ''tx1'', TransactionStartedEv ''tx1'', TransactionRetryEv ''tx1'' 1] \<and>
   map_option status (queue (ex_queue (runSteps 4 (failingProvider ''network error'') engine1)) ''tx1'')
     = Some PENDING \<and>
   map_option retryCount (queue (ex_queue (runSteps 4 (failingProvider ''network error'') engine1)) ''tx1'')
     = Some 0 \<and>
   map_option maxRetries (queue (ex_queue (runSteps 4 (failingProvider ''network error'') engine1)) ''tx1'')
     = Some 3"
proof -
  let ?ex = "runSteps 4 (failingProvider ''network error'') engine1"
  have e0: "emitted engine1 = [QueueResumedEv]" by (simp add: ev)
  from stuck_run[OF stuck_engine1, of 4]
  have s: "stuck ?ex" and
    e: "emitted ?ex = emitted engine1 @ concat (replicate 4
         [TransactionQueuedEv ''tx1'', TransactionStartedEv ''tx1'', TransactionRetryEv ''tx1'' 1])"
    by blast+
  from s obtain t where "queue (ex_queue ?ex) ''tx1'' = Some t" "status t = PENDING"
      "retryCount t = 0" "maxRetries t = 3"
    by (auto simp: stuck_def split: option.splits)
  moreover from e e0 have "emitted ?ex =
     [QueueResumedEv,
      TransactionQueuedEv ''tx1'', TransactionStartedEv ''tx1'', TransactionRetryEv ''tx1'' 1,
      TransactionQueuedEv ''tx1'', TransactionStartedEv ''tx1'', TransactionRetryEv ''tx1'' 1,
      TransactionQueuedEv ''tx1'', TransactionStartedEv ''tx1'', TransactionRetryEv ''tx1'' 1,
      TransactionQueuedEv ''tx1'', TransactionStartedEv ''tx1'', TransactionRetryEv ''tx1'' 1]"
    by (simp add: eval_nat_numeral)
  ultimately show ?thesis by simp
qed

section \<open>Cancellation\<close>

lemma rejected_not_retryable: "\<not> isRetryableError \<lparr>message = ''User rejected the request''\<rparr>"
  by (simp add: isRetryableError_def toLowerCase_def lower_char_def)

lemma engineRejected_state:
  "map_option status (queue (ex_queue engineRejected) ''tx1'') = Some FAILED \<and>
   currentlyExecuting engineRejected = []"
proof -
  obtain t where t: "queue (ex_queue engine1) ''tx1'' = Some t" "tx_id t = ''tx1''"
      "config t = sampleConfig ''tx1''"
    by (simp add: ev)
  have e: "isRunning engine1" "currentlyExecuting engine1 = []"
      "maxConcurrent (ex_options engine1) = 1" "nonceManager (ex_options engine1)"
      "executionOrder (ex_queue engine1) = [''tx1'']"
      "dependencyGraph (ex_queue engine1) ''tx1'' = None"
    using stuck_engine1 by (auto simp: stuck_def)
  have st: "status t = PENDING"
    using stuck_engine1 t(1) by (auto simp: stuck_def)
  have g: "getNext (ex_queue engine1) = Some t"
    by (simp add: getNext_def e t st hasPendingDependencies_def)
  show ?thesis
    unfolding engineRejected_def
    by (simp add: processQueueStep_def e g t executeTransaction_def setStatus_def updateStatus_def
        emit_def prepareTransaction_def prepareNonce_def prepareGasLimit_def prepareGasPrice_def
        failingProvider_def sampleConfig_def falsy_num_def handleTransactionError_def
        shouldRetry_def rejected_not_retryable assign_def
        finally_delete_def Let_def)
qed

text \<open>The claim C5 as stated fails: the record \<open>tx1\<close> of \<open>engineRejected\<close> is failed,
  neither pending nor queued, and not in flight; cancelling it succeeds and leaves it
  cancelled.\<close>

theorem cancel_failed_record_counterexample:
  "map_option status (queue (ex_queue engineRejected) ''tx1'') = Some FAILED \<and>
   fst (cancelTransaction engineRejected ''tx1'') \<and>
   map_option status (queue (ex_queue (snd (cancelTransaction engineRejected ''tx1''))) ''tx1'')
     = Some CANCELLED"
proof -
  from engineRejected_state obtain t where t: "queue (ex_queue engineRejected) ''tx1'' = Some t"
      "status t = FAILED" and c: "currentlyExecuting engineRejected = []"
    by auto
  have k: "cancel (ex_queue engineRejected) ''tx1'' =
      (True, (ex_queue engineRejected)\<lparr>queue :=
         (queue (ex_queue engineRejected))(''tx1'' \<mapsto> t\<lparr>status := CANCELLED\<rparr>)\<rparr>)"
    using t by (simp add: cancel_def)
  show ?thesis
    using t c by (simp add: cancelTransaction_def get_def k emit_def)
qed

text \<open>
  Claim C5, as the code has it. \<open>cancelTransaction\<close> fails and changes nothing when the
  record is confirmed or is in flight (in \<open>currentlyExecuting\<close>). For a stored record in
  any other status that is not in flight it succeeds and sets the status to cancelled.
\<close>

theorem cancelTransaction_effect:
  assumes "queue (ex_queue ex) ident = Some t"
  shows "(status t = CONFIRMED \<or> ident \<in> set (currentlyExecuting ex) \<longrightarrow>
            cancelTransaction ex ident = (False, ex)) \<and>
         (status t \<noteq> CONFIRMED \<and> ident \<notin> set (currentlyExecuting ex) \<longrightarrow>
            fst (cancelTransaction ex ident) \<and>
            queue (ex_queue (snd (cancelTransaction ex ident))) ident = Some (t\<lparr>status := CANCELLED\<rparr>))"
proof (intro conjI impI)
  assume "status t = CONFIRMED \<or> ident \<in> set (currentlyExecuting ex)"
  then show "cancelTransaction ex ident = (False, ex)"
    using assms by (auto simp: cancelTransaction_def get_def cancel_def)
next
  assume a: "status t \<noteq> CONFIRMED \<and> ident \<notin> set (currentlyExecuting ex)"
  then have c: "cancel (ex_queue ex) ident =
      (True, (ex_queue ex)\<lparr>queue := (queue (ex_queue ex))(ident \<mapsto> t\<lparr>status := CANCELLED\<rparr>)\<rparr>)"
    using assms by (simp add: cancel_def)
  from a show "fst (cancelTransaction ex ident)"
    using assms by (simp add: cancelTransaction_def get_def c)
  from a show "queue (ex_queue (snd (cancelTransaction ex ident))) ident = Some (t\<lparr>status := CANCELLED\<rparr>)"
    using assms by (simp add: cancelTransaction_def get_def c emit_def)
qed

theorem cancelTransaction_effect_witness:
  "map_option status (queue (ex_queue engineRejected) ''tx1'') = Some FAILED \<and>
   ''tx1'' \<notin> set (currentlyExecuting engineRejected) \<and>
   fst (cancelTransaction engineRejected ''tx1'') \<and>
   map_option status (queue (ex_queue (snd (cancelTransaction engineRejected ''tx1''))) ''tx1'')
     = Some CANCELLED \<and>
   map_option status (queue (ex_queue engineConfirmed) ''tx1'') = Some CONFIRMED \<and>
   cancelTransaction engineConfirmed ''tx1'' = (False, engineConfirmed)"
proof -
  from engineRejected_state obtain t where t: "queue (ex_queue engineRejected) ''tx1'' = Some t"
      "status t = FAILED" and c: "currentlyExecuting engineRejected = []"
    by auto
  obtain u where u: "queue (ex_queue engineConfirmed) ''tx1'' = Some u" "status u = CONFIRMED"
    by (simp add: engineConfirmed_def ev)
  from cancelTransaction_effect[OF t(1)] cancelTransaction_effect[OF u(1)] t c u
  show ?thesis by simp
qed

section \<open>Manual retry\<close>



























section \<open>Duplicate identifiers\<close>

text \<open>
  Claim C2, evaluated on the code. \<open>queue1\<close> holds \<open>tx1\<close> and the validator reports the
  config as invalid, yet \<open>add\<close> with the same identifier returns the identifier: the
  stored record is replaced (its priority is now 1) and the execution order has a second
  entry for \<open>tx1\<close>.
\<close>

theorem add_accepts_duplicate:
  "executionOrder queue1 = [''tx1''] \<and>
   map_option priority (queue queue1 ''tx1'') = Some 0 \<and>
   \<not> isValid (validateTransaction queue1 (sampleConfig ''tx1'')) \<and>
   errors (validateTransaction queue1 (sampleConfig ''tx1'')) =
     [''Transaction with ID tx1 already exists''] \<and>
   fst duplicateAdd = ''tx1'' \<and>
   executionOrder (snd duplicateAdd) = [''tx1'', ''tx1''] \<and>
   map_option priority (queue (snd duplicateAdd) ''tx1'') = Some 1"
  by (simp add: duplicateAdd_def validateTransaction_def ev)

section \<open>Priority order\<close>

text \<open>
  Claim C6, evaluated on the code. After \<open>add\<close> of \<open>A\<close> with priority 5, of \<open>B\<close> with
  priority 3 and of \<open>A\<close> again with priority 1, the execution order is \<open>A, B, A\<close> and the
  priorities of its records read 1, 3, 1: the first entry has a smaller priority than
  the second.
\<close>

theorem order_unsorted_after_duplicate:
  "executionOrder queueABA = [''A'', ''B'', ''A''] \<and>
   map (priorityOf queueABA) (executionOrder queueABA) = [1, 3, 1] \<and>
   priorityOf queueABA (executionOrder queueABA ! 0) < priorityOf queueABA (executionOrder queueABA ! 1)"
  by (simp add: queueABA_def priorityOf_def ev)

text \<open>With identifiers that are new to the queue the order is kept. The scan of
  \<open>insertIntoExecutionOrder\<close> stops at the first record of smaller priority, so the new
  entry goes behind every entry of the same or a higher priority.\<close>

lemma insertIndex_takeWhile:
  "\<forall>x \<in> set xs. qm x \<noteq> None \<Longrightarrow>
     insertIndex qm p xs i = i + length (takeWhile (\<lambda>x. p \<le> priority (the (qm x))) xs)"
  by (induction xs arbitrary: i) (auto split: option.splits)

lemma splice_in_takeWhile:
  "splice_in (length (takeWhile P xs)) x xs = takeWhile P xs @ x # dropWhile P xs"
  by (simp add: splice_in_def takeWhile_eq_take[symmetric] dropWhile_eq_drop[symmetric])

lemma sorted_insert:
  fixes f :: "'a \<Rightarrow> int"
  assumes "sorted_wrt (\<lambda>a b. f a \<ge> f b) xs"
  shows "sorted_wrt (\<lambda>a b. f a \<ge> f b)
           (takeWhile (\<lambda>y. f x \<le> f y) xs @ x # dropWhile (\<lambda>y. f x \<le> f y) xs)"
  using assms
proof (induction xs)
  case Nil
  then show ?case by simp
next
  case (Cons y ys)
  show ?case
  proof (cases "f x \<le> f y")
    case True
    have "set (takeWhile (\<lambda>y. f x \<le> f y) ys) \<subseteq> set ys" "set (dropWhile (\<lambda>y. f x \<le> f y) ys) \<subseteq> set ys"
      by (auto dest: set_takeWhileD set_dropWhileD)
    with Cons True show ?thesis by auto
  next
    case False
    with Cons.prems show ?thesis by fastforce
  qed
qed

lemma set_insert_split: "set (takeWhile P xs @ x # dropWhile P xs) = insert x (set xs)"
proof -
  have "set xs = set (takeWhile P xs @ dropWhile P xs)" by simp
  also have "\<dots> = set (takeWhile P xs) \<union> set (dropWhile P xs)" by (rule set_append)
  finally have "set xs = set (takeWhile P xs) \<union> set (dropWhile P xs)" .
  then show ?thesis by (simp add: Un_commute insert_commute)
qed

lemma insert_keeps_order:
  assumes xs: "\<forall>x \<in> set xs. qm x \<noteq> None" "ident \<notin> set xs"
    and srt: "sorted_wrt (\<lambda>a b. priority (the (qm a)) \<ge> priority (the (qm b))) xs"
    and q0: "queue q0 = qm(ident \<mapsto> t)" "executionOrder q0 = xs"
    and q': "q' = insertIntoExecutionOrder q0 ident (priority t)"
  shows "executionOrder q' =
           takeWhile (\<lambda>y. priority t \<le> priority (the (qm y))) xs @ ident #
           dropWhile (\<lambda>y. priority t \<le> priority (the (qm y))) xs"
    and "byPriority q'" and "queue q' = qm(ident \<mapsto> t)"
proof -
  let ?qm = "qm(ident \<mapsto> t)"
  let ?f = "\<lambda>a. priority (the (?qm a))"
  have agree: "?f y = priority (the (qm y))" if "y \<in> set xs" for y
    using that xs(2) by auto
  have tw: "takeWhile (\<lambda>y. priority t \<le> ?f y) xs = takeWhile (\<lambda>y. priority t \<le> priority (the (qm y))) xs"
    using xs(2) by (intro takeWhile_cong refl) auto
  have dw: "dropWhile (\<lambda>y. priority t \<le> ?f y) xs = dropWhile (\<lambda>y. priority t \<le> priority (the (qm y))) xs"
    using xs(2) by (intro dropWhile_cong refl) auto
  have all: "\<forall>x \<in> set xs. ?qm x \<noteq> None" using xs by auto
  have o: "executionOrder q' = takeWhile (\<lambda>y. priority t \<le> ?f y) xs @ ident # dropWhile (\<lambda>y. priority t \<le> ?f y) xs"
    unfolding q' insertIntoExecutionOrder_def
    by (simp add: q0 insertIndex_takeWhile[OF all] splice_in_takeWhile)
  from o show "executionOrder q' =
           takeWhile (\<lambda>y. priority t \<le> priority (the (qm y))) xs @ ident #
           dropWhile (\<lambda>y. priority t \<le> priority (the (qm y))) xs"
    unfolding tw dw .
  show qq: "queue q' = qm(ident \<mapsto> t)"
    unfolding q' insertIntoExecutionOrder_def by (simp add: q0)
  have s: "sorted_wrt (\<lambda>a b. ?f a \<ge> ?f b) xs"
    using srt agree by (auto simp: sorted_wrt_iff_nth_less)
  have fi: "?f ident = priority t" by simp
  from sorted_insert[OF s, of ident] have
    "sorted_wrt (\<lambda>a b. ?f a \<ge> ?f b) (executionOrder q')"
    unfolding o fi .
  moreover have mem: "set (executionOrder q') = insert ident (set xs)"
    unfolding o by (rule set_insert_split)
  have "priorityOf q' a = ?f a" if "a \<in> set (executionOrder q')" for a
  proof -
    from that mem all have "?qm a \<noteq> None" by auto
    then show ?thesis by (auto simp: priorityOf_def qq)
  qed
  ultimately show "byPriority q'"
    unfolding byPriority_def by (auto simp: sorted_wrt_iff_nth_less)
qed

lemma distinct_insert_split:
  "distinct xs \<Longrightarrow> x \<notin> set xs \<Longrightarrow> distinct (takeWhile P xs @ x # dropWhile P xs)"
proof -
  assume d: "distinct xs" and x: "x \<notin> set xs"
  have "distinct (takeWhile P xs @ dropWhile P xs)" using d by simp
  then have "distinct (takeWhile P xs)" "distinct (dropWhile P xs)"
      "set (takeWhile P xs) \<inter> set (dropWhile P xs) = {}"
    unfolding distinct_append by blast+
  moreover have "x \<notin> set (takeWhile P xs)" "x \<notin> set (dropWhile P xs)"
    using x by (auto dest: set_takeWhileD set_dropWhileD)
  ultimately show ?thesis by auto
qed

lemma byPriority_the:
  assumes "wellFormed q" "byPriority q"
  shows "sorted_wrt (\<lambda>a b. priority (the (queue q a)) \<ge> priority (the (queue q b))) (executionOrder q)"
proof -
  have "priorityOf q a = priority (the (queue q a))" if "a \<in> set (executionOrder q)" for a
    using that assms(1) by (auto simp: wellFormed_def priorityOf_def)
  with assms(2) show ?thesis
    unfolding byPriority_def by (auto simp: sorted_wrt_iff_nth_less)
qed

lemma add_keeps_order:
  assumes wf: "wellFormed q" and bp: "byPriority q" and fresh: "queue q (addIdent cfg gen) = None"
  shows "wellFormed (snd (add q cfg opts now gen))" and "byPriority (snd (add q cfg opts now gen))"
    and "executionOrder (snd (add q cfg opts now gen)) =
           takeWhile (\<lambda>y. or_default (o_priority opts) 0 \<le> priority (the (queue q y))) (executionOrder q) @
           addIdent cfg gen #
           dropWhile (\<lambda>y. or_default (o_priority opts) 0 \<le> priority (the (queue q y))) (executionOrder q)"
proof -
  define ident where "ident = addIdent cfg gen"
  define deps where "deps = (case o_dependencies opts of None \<Rightarrow> [] | Some ds \<Rightarrow> ds)"
  define t where "t =
            \<lparr> tx_id = ident, config = cfg\<lparr>config_id := Some ident\<rparr>, status = PENDING,
              priority = or_default (o_priority opts) 0,
              dependencies = deps,
              retryCount = 0,
              maxRetries = or_default (o_maxRetries opts) (defaultMaxRetries (options q)),
              createdAt = now, executedAt = None, confirmedAt = None, hash = None,
              receipt = None, error = None, metadata = o_metadata opts \<rparr>"
  define q0 where "q0 =
     (if deps \<noteq> []
      then q\<lparr>queue := (queue q)(ident \<mapsto> t),
             dependencyGraph := (dependencyGraph (q\<lparr>queue := (queue q)(ident \<mapsto> t)\<rparr>))(ident \<mapsto> newSet deps)\<rparr>
      else q\<lparr>queue := (queue q)(ident \<mapsto> t)\<rparr>)"
  define q' where "q' = insertIntoExecutionOrder q0 ident (priority t)"
  have q0: "queue q0 = (queue q)(ident \<mapsto> t)" "executionOrder q0 = executionOrder q"
    by (simp_all add: q0_def)
  have a: "snd (add q cfg opts now gen) = q'"
    unfolding add_def Let_def q'_def q0_def t_def deps_def ident_def addIdent_def by simp
  have pt: "priority t = or_default (o_priority opts) 0" by (simp add: t_def)
  have all: "\<forall>x \<in> set (executionOrder q). queue q x \<noteq> None" and d: "distinct (executionOrder q)"
    using wf by (auto simp: wellFormed_def)
  have notin: "ident \<notin> set (executionOrder q)"
    using all fresh by (auto simp: ident_def)
  note k = insert_keeps_order[OF all notin byPriority_the[OF wf bp] q0 q'_def]
  from k(1) show "executionOrder (snd (add q cfg opts now gen)) =
           takeWhile (\<lambda>y. or_default (o_priority opts) 0 \<le> priority (the (queue q y))) (executionOrder q) @
           addIdent cfg gen #
           dropWhile (\<lambda>y. or_default (o_priority opts) 0 \<le> priority (the (queue q y))) (executionOrder q)"
    unfolding a pt ident_def .
  from k(2) show "byPriority (snd (add q cfg opts now gen))" unfolding a .
  have "distinct (executionOrder q')"
    unfolding k(1) by (rule distinct_insert_split[OF d notin])
  moreover have "\<forall>x \<in> set (executionOrder q'). queue q' x \<noteq> None"
    unfolding k(1) k(3) set_insert_split using all by auto
  ultimately show "wellFormed (snd (add q cfg opts now gen))"
    unfolding a wellFormed_def by blast
qed

lemma reorder_keeps_order:
  assumes wf: "wellFormed q" and bp: "byPriority q"
  shows "wellFormed (snd (reorder q ident newPriority))" and "byPriority (snd (reorder q ident newPriority))"
proof -
  have "wellFormed (snd (reorder q ident newPriority)) \<and> byPriority (snd (reorder q ident newPriority))"
  proof (cases "queue q ident")
    case None
    then show ?thesis using wf bp by (simp add: reorder_def)
  next
    case (Some t0)
    define t where "t = t0\<lparr>priority := newPriority\<rparr>"
    define xs where "xs = filter (\<lambda>txId. txId \<noteq> ident) (executionOrder q)"
    define q0 where "q0 = q\<lparr>executionOrder := xs, queue := (queue (q\<lparr>executionOrder := xs\<rparr>))(ident \<mapsto> t)\<rparr>"
    define q' where "q' = insertIntoExecutionOrder q0 ident (priority t)"
    have q0: "queue q0 = (queue q)(ident \<mapsto> t)" "executionOrder q0 = xs"
      by (simp_all add: q0_def)
    have a: "snd (reorder q ident newPriority) = q'"
      using Some unfolding reorder_def Let_def q'_def q0_def t_def xs_def by simp
    have all: "\<forall>x \<in> set xs. queue q x \<noteq> None" and d: "distinct xs"
      using wf by (auto simp: wellFormed_def xs_def)
    have notin: "ident \<notin> set xs" by (simp add: xs_def)
    have s: "sorted_wrt (\<lambda>a b. priority (the (queue q a)) \<ge> priority (the (queue q b))) xs"
      unfolding xs_def by (rule sorted_wrt_filter[OF byPriority_the[OF wf bp]])
    note k = insert_keeps_order[OF all notin s q0 q'_def]
    have "distinct (executionOrder q')"
      unfolding k(1) by (rule distinct_insert_split[OF d notin])
    moreover have "\<forall>x \<in> set (executionOrder q'). queue q' x \<noteq> None"
      unfolding k(1) k(3) set_insert_split using all by auto
    ultimately show ?thesis
      using k(2) unfolding a wellFormed_def by blast
  qed
  then show "wellFormed (snd (reorder q ident newPriority))"
    and "byPriority (snd (reorder q ident newPriority))" by blast+
qed

lemma new_queue_ordered:
  "wellFormed (TransactionQueue_new opts) \<and> byPriority (TransactionQueue_new opts)"
  by (simp add: wellFormed_def byPriority_def TransactionQueue_new_def)

text \<open>Every sequence of \<open>add\<close> and \<open>reorder\<close> calls in which each \<open>add\<close> brings an
  identifier that the queue does not hold leaves the execution order by priority.\<close>

lemma fresh_ops_keep_order:
  "wellFormed q \<Longrightarrow> byPriority q \<Longrightarrow> freshOps q ops \<Longrightarrow>
     wellFormed (foldl applyOp q ops) \<and> byPriority (foldl applyOp q ops)"
proof (induction ops arbitrary: q)
  case Nil
  then show ?case by simp
next
  case (Cons op ops)
  show ?case
  proof (cases op)
    case (Add cfg opts now gen)
    with Cons.prems have f: "queue q (addIdent cfg gen) = None" and r: "freshOps (applyOp q op) ops"
      by simp_all
    from add_keeps_order(1,2)[OF Cons.prems(1,2) f, of opts now]
    have "wellFormed (applyOp q op)" "byPriority (applyOp q op)"
      by (simp_all add: Add)
    from Cons.IH[OF this r] show ?thesis by simp
  next
    case (Reorder ident newPriority)
    with Cons.prems have r: "freshOps (applyOp q op) ops" by simp
    from reorder_keeps_order[OF Cons.prems(1,2), of ident newPriority]
    have "wellFormed (applyOp q op)" "byPriority (applyOp q op)"
      by (simp_all add: Reorder)
    from Cons.IH[OF this r] show ?thesis by simp
  qed
qed

text \<open>The validator reports every config whose identifier is in the queue, and \<open>add\<close>
  returns its identifier in every case: it has no way to fail.\<close>

lemma validateTransaction_duplicate:
  "config_id cfg = Some i \<Longrightarrow> i \<noteq> [] \<Longrightarrow> queue q i \<noteq> None \<Longrightarrow>
     \<not> isValid (validateTransaction q cfg)"
  by (simp add: validateTransaction_def falsy_str_def Let_def)

lemma add_returns_ident: "fst (add q cfg opts now gen) = addIdent cfg gen"
  by (simp add: add_def addIdent_def Let_def)

section \<open>Classification of errors\<close>

lemma str_includes_sublist: "str_includes s sub \<longleftrightarrow> sublist sub s"
  by (induction s) (auto simp: sublist_Cons_right)

lemma shouldRetry_exhausted:
  "maxRetries transaction \<le> retryCount transaction \<Longrightarrow> \<not> shouldRetry transaction err"
  by (simp add: shouldRetry_def)

text \<open>An error whose message has none of the twelve transient phrases is not retried,
  whichever other phrases it has.\<close>

lemma isRetryableError_iff:
  "isRetryableError err \<longleftrightarrow>
     (\<exists>phrase \<in> set [''network'', ''timeout'', ''connection'', ''rate limit'',
         ''too many requests'', ''429'', ''nonce too low'', ''already known'',
         ''replacement transaction underpriced'', ''gas price too low'', ''pending'', ''queued''].
        str_includes (toLowerCase (message err)) phrase)"
  unfolding isRetryableError_def Let_def by (simp del: str_includes.simps)

text \<open>
  Claim C7, evaluated on the code. The record \<open>tx1\<close> of \<open>queue1\<close> has retry counter 0
  below its ceiling 3, and the message of \<open>fundsError\<close> contains ``insufficient funds''.
  The message also contains ``network'', which is tested first, and \<open>shouldRetry\<close>
  returns true.
\<close>

theorem insufficient_funds_retried:
  "str_includes (toLowerCase (message fundsError)) ''insufficient funds'' \<and>
   (case queue queue1 ''tx1'' of
      None \<Rightarrow> False
    | Some t \<Rightarrow> retryCount t = 0 \<and> maxRetries t = 3 \<and> shouldRetry t fundsError)"
  by (simp add: fundsError_def shouldRetry_def isRetryableError_def toLowerCase_def
      lower_char_def ev)

section \<open>Retry delays\<close>

lemma getLinearDelay_le: "getLinearDelay opts n \<le> maxDelay opts"
  by (simp add: getLinearDelay_def)

lemma getExponentialBackoffDelay_le: "getExponentialBackoffDelay opts rnd n \<le> maxDelay opts"
proof -
  have "of_int \<lfloor>x\<rfloor> \<le> m" if "x \<le> m" for x m :: real
    using that of_int_floor_le[of x] by linarith
  then show ?thesis
    by (simp add: getExponentialBackoffDelay_def Let_def)
qed

lemma getExponentialBackoffDelay_whole: "getExponentialBackoffDelay opts rnd n \<in> \<int>"
  by (simp add: getExponentialBackoffDelay_def Let_def)

lemma getRetryDelay_le:
  "strategy opts \<noteq> FIXED_DELAY \<Longrightarrow> 0 \<le> maxDelay opts \<Longrightarrow> getRetryDelay opts rnd n \<le> maxDelay opts"
  by (cases "strategy opts")
     (simp_all add: getRetryDelay_def getLinearDelay_le getExponentialBackoffDelay_le)

lemma getRetryDelay_fixed:
  "strategy opts = FIXED_DELAY \<Longrightarrow> getRetryDelay opts rnd n = baseDelay opts"
  by (simp add: getRetryDelay_def)

text \<open>
  Claim C8, evaluated on the code. A retry manager built with the fixed strategy, base
  delay 5000 and maximum delay 1000 returns the delay 5000 for attempt 1, above its
  maximum.
\<close>

theorem fixed_delay_exceeds_maximum:
  "strategy fixedManager = FIXED_DELAY \<and> maxDelay fixedManager = 1000 \<and>
   getRetryDelay fixedManager 0 1 = 5000 \<and>
   getRetryDelay fixedManager 0 1 > maxDelay fixedManager"
  by (simp add: fixedManager_def RetryManager_new_def or_default_def getRetryDelay_def)

end
